theory Spec2Isabelle
  imports Main
begin

section \<open>JavaScript values and the object store\<close>

text \<open>
  The theme generator of \<^verbatim>\<open>ui-table/src/Table/Row/theme.ts\<close> reads properties of
  objects, builds four object literals and returns the last one. Objects live in a store
  and values refer to them by address, so that what the call allocates and what it
  leaves alone can be stated.

  A value is \<^verbatim>\<open>undefined\<close>, \<^verbatim>\<open>null\<close>, a string, a number or a reference to an object
  of the store. Numbers are the integers a double holds exactly (such as the font weight
  400): a well-formed store holds no other, see \<open>val_ok\<close>. Objects are plain objects
  with data properties; there are no functions, arrays or symbols.
\<close>

datatype jsval = JUndefined | JNull | JStr string | JNum int | JRef nat

text \<open>An object is the list of its own enumerable properties, in insertion order.\<close>

type_synonym obj = "(string \<times> jsval) list"

text \<open>The store: the object at address \<open>a\<close> is the \<open>a\<close>-th element.\<close>

type_synonym heap = "obj list"

datatype error = TypeError

definition cell :: "heap \<Rightarrow> nat \<Rightarrow> obj" where
  "cell h a = (if a < length h then h ! a else [])"

text \<open>Evaluating an object literal allocates a fresh object at the next free address.\<close>

definition alloc :: "heap \<Rightarrow> obj \<Rightarrow> nat \<times> heap" where
  "alloc h ob = (length h, h @ [ob])"

text \<open>
  Reading an own property. A property that is not there reads as \<^verbatim>\<open>undefined\<close>; a
  property that is there with the value \<^verbatim>\<open>undefined\<close> reads the same, but is a key of
  the object. None of the property names this module writes out is inherited from
  \<^verbatim>\<open>Object.prototype\<close>, \<^verbatim>\<open>String.prototype\<close> or \<^verbatim>\<open>Number.prototype\<close>, so own properties are
  all such a read can find.
\<close>

definition own :: "obj \<Rightarrow> string \<Rightarrow> jsval" where
  "own ps k = (case map_of ps k of None \<Rightarrow> JUndefined | Some v \<Rightarrow> v)"

definition has_own :: "obj \<Rightarrow> string \<Rightarrow> bool" where
  "has_own ps k = (map_of ps k \<noteq> None)"

definition nullish :: "jsval \<Rightarrow> bool" where
  "nullish v = (v = JUndefined \<or> v = JNull)"

text \<open>
  \<^verbatim>\<open>v.k\<close>, \<^verbatim>\<open>v[k]\<close> and the destructuring \<^verbatim>\<open>const { k } = v\<close>: a \<^verbatim>\<open>TypeError\<close> on
  \<^verbatim>\<open>undefined\<close> and \<^verbatim>\<open>null\<close>, the own property of an object, \<^verbatim>\<open>undefined\<close> on a string
  or a number.
\<close>

definition member :: "heap \<Rightarrow> jsval \<Rightarrow> string \<Rightarrow> error + jsval" where
  "member h v k =
     (case v of
        JUndefined \<Rightarrow> Inl TypeError
      | JNull \<Rightarrow> Inl TypeError
      | JRef a \<Rightarrow> Inr (own (cell h a) k)
      | _ \<Rightarrow> Inr JUndefined)"

text \<open>Optional chaining \<^verbatim>\<open>v?.k\<close>: \<^verbatim>\<open>undefined\<close> where \<^verbatim>\<open>v.k\<close> would throw.\<close>

definition opt_member :: "heap \<Rightarrow> jsval \<Rightarrow> string \<Rightarrow> jsval" where
  "opt_member h v k = (case member h v k of Inl e \<Rightarrow> JUndefined | Inr x \<Rightarrow> x)"

subsection \<open>Conversion to string\<close>

fun show_nat :: "nat \<Rightarrow> string" where
  "show_nat n =
     (if n < 10 then [''0123456789'' ! n]
      else show_nat (n div 10) @ [''0123456789'' ! (n mod 10)])"

declare show_nat.simps [simp del]

text \<open>
  The decimal digits of an integer, with a minus sign when it is negative. It is
  applied to the numbers of a well-formed store only, which are safe integers; for
  these it gives what JavaScript prints.
\<close>

definition show_int :: "int \<Rightarrow> string" where
  "show_int i = (if i < 0 then CHR ''-'' # show_nat (nat (- i)) else show_nat (nat i))"

text \<open>
  What a template literal \<^verbatim>\<open>${v}\<close> and a computed property key \<^verbatim>\<open>o[v]\<close> make of a
  value. For an object the conversion calls its \<^verbatim>\<open>toString\<close>. An object without an own
  property of that name inherits the one of \<^verbatim>\<open>Object.prototype\<close> and prints as
  \<^verbatim>\<open>[object Object]\<close>. An own property \<^verbatim>\<open>toString\<close> hides the inherited one, and as no
  value here is a function it cannot be called; the inherited \<^verbatim>\<open>valueOf\<close>, tried next,
  returns the object itself, and the conversion throws a \<^verbatim>\<open>TypeError\<close>. The digits of a
  number are those JavaScript prints for an integer below \<^verbatim>\<open>1e21\<close>.
\<close>

definition to_string :: "heap \<Rightarrow> jsval \<Rightarrow> error + string" where
  "to_string h v =
     (case v of
        JUndefined \<Rightarrow> Inr ''undefined''
      | JNull \<Rightarrow> Inr ''null''
      | JStr s \<Rightarrow> Inr s
      | JNum i \<Rightarrow> Inr (show_int i)
      | JRef a \<Rightarrow>
          if has_own (cell h a) ''toString'' then Inl TypeError
          else Inr ''[object Object]'')"

subsection \<open>Object spread\<close>

text \<open>Writing a property: an existing key keeps its place, a new key goes last.\<close>

fun put :: "string \<Rightarrow> jsval \<Rightarrow> obj \<Rightarrow> obj" where
  "put k v [] = [(k, v)]"
| "put k v ((k', v') # ps) = (if k = k' then (k, v) # ps else (k', v') # put k v ps)"

text \<open>
  The properties \<^verbatim>\<open>...v\<close> copies into an object literal: those of an object, the
  indexed characters of a string, none of \<^verbatim>\<open>undefined\<close>, \<^verbatim>\<open>null\<close> or a number.
\<close>

definition own_enumerable :: "heap \<Rightarrow> jsval \<Rightarrow> obj" where
  "own_enumerable h v =
     (case v of
        JRef a \<Rightarrow> cell h a
      | JStr s \<Rightarrow> zip (map show_nat [0..<length s]) (map (\<lambda>c. JStr [c]) s)
      | _ \<Rightarrow> [])"

text \<open>\<^verbatim>\<open>{ ...target, ...source }\<close>, one property of the source after the other.\<close>

definition spread :: "obj \<Rightarrow> obj \<Rightarrow> obj" where
  "spread target source = fold (\<lambda>(k, v) acc. put k v acc) source target"

section \<open>The theme of a table row\<close>

text \<open>
  \<^verbatim>\<open>componentVariables\<close>, from the destructured \<open>colors\<close>, \<open>typography\<close> and \<open>spacing\<close>:
  \<^verbatim>\<open>
  fontSize: typography?.fontSizeMedium,
  fontFamily: typography?.fontFamily,
  fontWeight: typography?.fontWeightNormal,
  color: colors?.contrasts?.grey125125,
  background: colors?.contrasts?.white1010,
  borderColor: colors?.contrasts?.grey1214,
  hoverBorderColor: colors?.contrasts?.blue4570,
  padding: `${spacing?.xSmall} 0`
  \<close>
  The reads cannot throw; the template literal throws when the conversion of
  \<^verbatim>\<open>spacing?.xSmall\<close> to a string does.
\<close>

definition componentVariables :: "heap \<Rightarrow> jsval \<Rightarrow> jsval \<Rightarrow> jsval \<Rightarrow> error + obj" where
  "componentVariables h colors typography spacing =
     (case to_string h (opt_member h spacing ''xSmall'') of
        Inl e \<Rightarrow> Inl e
      | Inr xSmall \<Rightarrow>
          Inr [(''fontSize'', opt_member h typography ''fontSizeMedium''),
               (''fontFamily'', opt_member h typography ''fontFamily''),
               (''fontWeight'', opt_member h typography ''fontWeightNormal''),
               (''color'', opt_member h (opt_member h colors ''contrasts'') ''grey125125''),
               (''background'', opt_member h (opt_member h colors ''contrasts'') ''white1010''),
               (''borderColor'', opt_member h (opt_member h colors ''contrasts'') ''grey1214''),
               (''hoverBorderColor'',
                  opt_member h (opt_member h colors ''contrasts'') ''blue4570''),
               (''padding'', JStr (xSmall @ '' 0''))])"

text \<open>
  \<^verbatim>\<open>generateComponentTheme\<close>. The destructuring of \<open>theme\<close> and the read of
  \<^verbatim>\<open>theme['ic-brand-primary']\<close> are plain property reads, which throw on \<^verbatim>\<open>undefined\<close>
  and \<^verbatim>\<open>null\<close>. The call allocates four objects: the override of the canvas theme,
  \<^verbatim>\<open>themeSpecificStyle\<close>, \<^verbatim>\<open>componentVariables\<close> and the object it returns, numbered here
  in the order in which the literals are completed; a literal that a throw abandons
  leaves nothing in the store. Reads that the source makes after an allocation are
  made in the store as it is then.

  \<^verbatim>\<open>themeSpecificStyle[themeName]\<close> converts the name to a property key, which throws
  when the conversion to a string does. Under a name that \<^verbatim>\<open>Object.prototype\<close> defines
  (\<^verbatim>\<open>toString\<close>, \<^verbatim>\<open>constructor\<close>, ...) the read finds an inherited function or object
  without own enumerable properties, of which the spread copies nothing, as it copies
  nothing of the \<^verbatim>\<open>undefined\<close> that the read of own properties gives here.
\<close>

definition generateComponentTheme :: "heap \<Rightarrow> jsval \<Rightarrow> (error + jsval) \<times> heap" where
  "generateComponentTheme h theme =
     (case (member h theme ''colors'', member h theme ''typography'',
            member h theme ''spacing'', member h theme ''key'',
            member h theme ''ic-brand-primary'') of
        (Inr colors, Inr typography, Inr spacing, Inr themeName, Inr brand) \<Rightarrow>
          (let (canvas, h1) = alloc h [(''hoverBorderColor'', brand)];
               (themeSpecificStyle, h2) = alloc h1 [(''canvas'', JRef canvas)]
           in case componentVariables h2 colors typography spacing of
                Inl e \<Rightarrow> (Inl e, h2)
              | Inr properties \<Rightarrow>
                  (let (variables, h3) = alloc h2 properties
                   in case to_string h3 themeName of
                        Inl e \<Rightarrow> (Inl e, h3)
                      | Inr name \<Rightarrow>
                          (case member h3 (JRef themeSpecificStyle) name of
                             Inl e \<Rightarrow> (Inl e, h3)
                           | Inr override \<Rightarrow>
                               (let (result, h4) =
                                      alloc h3
                                        (spread (spread [] (own_enumerable h3 (JRef variables)))
                                           (own_enumerable h3 override))
                                in (Inr (JRef result), h4)))))
      | _ \<Rightarrow> (Inl TypeError, h))"

text \<open>
  The properties of the component theme a call returns, read from the store the call
  leaves; \<open>None\<close> when the call throws.
\<close>

definition returned :: "heap \<Rightarrow> jsval \<Rightarrow> obj option" where
  "returned h theme =
     (case generateComponentTheme h theme of
        (Inr (JRef r), h') \<Rightarrow> Some (cell h' r)
      | _ \<Rightarrow> None)"

text \<open>One property of the returned component theme.\<close>

definition returned_prop :: "heap \<Rightarrow> jsval \<Rightarrow> string \<Rightarrow> jsval option" where
  "returned_prop h theme k = map_option (\<lambda>res. own res k) (returned h theme)"

definition returned_has :: "heap \<Rightarrow> jsval \<Rightarrow> string \<Rightarrow> bool" where
  "returned_has h theme k =
     (case returned h theme of None \<Rightarrow> False | Some res \<Rightarrow> has_own res k)"

text \<open>The token of a theme at a path of property names, as \<^verbatim>\<open>theme?.a?.b\<close> reads it.\<close>

definition token :: "heap \<Rightarrow> jsval \<Rightarrow> string list \<Rightarrow> jsval" where
  "token h theme path = foldl (opt_member h) theme path"

subsection \<open>Well-formed stores\<close>

text \<open>
  A reference is valid when it points into the store, a number when it is a safe
  integer (at most \<open>2\<^sup>5\<^sup>3 - 1\<close> in absolute value), which a double holds exactly and
  JavaScript prints digit by digit. No object of a well-formed store holds another
  reference or number.
\<close>

definition val_ok :: "heap \<Rightarrow> jsval \<Rightarrow> bool" where
  "val_ok h v =
     (case v of
        JRef a \<Rightarrow> a < length h
      | JNum i \<Rightarrow> \<bar>i\<bar> \<le> 9007199254740991
      | _ \<Rightarrow> True)"

definition heap_ok :: "heap \<Rightarrow> bool" where
  "heap_ok h = list_all (\<lambda>ob. list_all (\<lambda>kv. val_ok h (snd kv)) ob) h"


text \<open>A theme object: a reference into a well-formed store.\<close>

definition theme_object :: "heap \<Rightarrow> jsval \<Rightarrow> bool" where
  "theme_object h theme = (heap_ok h \<and> (case theme of JRef a \<Rightarrow> a < length h | _ \<Rightarrow> False))"

text \<open>
  A value converts when its conversion to a string does not throw, and a theme does
  when the two values the call converts do: its key and its \<open>spacing.xSmall\<close>. In a
  well-formed store these are all values but the objects with an own \<^verbatim>\<open>toString\<close>.
\<close>

definition converts :: "heap \<Rightarrow> jsval \<Rightarrow> bool" where
  "converts h v = (case to_string h v of Inl e \<Rightarrow> False | Inr s \<Rightarrow> True)"

definition theme_converts :: "heap \<Rightarrow> jsval \<Rightarrow> bool" where
  "theme_converts h theme =
     (converts h (token h theme [''key'']) \<and>
      converts h (token h theme [''spacing'', ''xSmall'']))"

text \<open>
  What \<^verbatim>\<open>themeSpecificStyle[name]\<close> contributes to the spread: the override of the
  canvas theme under the key \<^verbatim>\<open>canvas\<close>, nothing under any other key.
\<close>

definition override_of :: "string \<Rightarrow> jsval \<Rightarrow> obj" where
  "override_of name brand =
     (if name = ''canvas'' then [(''hoverBorderColor'', brand)] else [])"

text \<open>The keys of the component theme.\<close>

definition theme_keys :: "string list" where
  "theme_keys =
     [''fontSize'', ''fontFamily'', ''fontWeight'', ''color'', ''background'',
      ''borderColor'', ''hoverBorderColor'', ''padding'']"

text \<open>The paths of the tokens a call reads from its theme.\<close>

definition theme_paths :: "string list list" where
  "theme_paths =
     [[''key''], [''ic-brand-primary''],
      [''typography'', ''fontSizeMedium''], [''typography'', ''fontFamily''],
      [''typography'', ''fontWeightNormal''],
      [''colors'', ''contrasts'', ''grey125125''], [''colors'', ''contrasts'', ''white1010''],
      [''colors'', ''contrasts'', ''grey1214''], [''colors'', ''contrasts'', ''blue4570''],
      [''spacing'', ''xSmall'']]"

text \<open>Two themes are equal as inputs of the call when they have the same tokens.\<close>

definition same_tokens :: "heap \<Rightarrow> jsval \<Rightarrow> jsval \<Rightarrow> bool" where
  "same_tokens h theme theme' =
     list_all (\<lambda>path. token h theme path = token h theme' path) theme_paths"

text \<open>The tokens of the typography, the colours and the spacing are present.\<close>

definition tokens_present :: "heap \<Rightarrow> jsval \<Rightarrow> bool" where
  "tokens_present h theme =
     list_all (\<lambda>path. \<not> nullish (token h theme path)) (drop 2 theme_paths)"

subsection \<open>A store with example themes\<close>

text \<open>
  Address 0 holds a theme with the key \<^verbatim>\<open>canvas\<close>, address 5 one with another key,
  address 6 a canvas theme without \<^verbatim>\<open>ic-brand-primary\<close> and address 7 an empty theme;
  they share the token objects at the addresses 1 to 4. Address 8 holds a copy of the
  first theme built apart, with token objects of its own at the addresses 9 to 12.
  The object at address 13 owns a property \<^verbatim>\<open>toString\<close>; it is the key of the theme
  at address 14 and the \<open>spacing.xSmall\<close> of the canvas theme at address 16.
\<close>

definition example_heap :: heap where
  "example_heap =
     [[(''key'', JStr ''canvas''), (''colors'', JRef 1), (''typography'', JRef 3),
       (''spacing'', JRef 4), (''ic-brand-primary'', JStr ''#008EE2'')],
      [(''contrasts'', JRef 2)],
      [(''white1010'', JStr ''#FFFFFF''), (''grey1214'', JStr ''#E8EAEC''),
       (''grey125125'', JStr ''#273540''), (''blue4570'', JStr ''#2B7ABC'')],
      [(''fontFamily'', JStr ''LatoWeb, Lato, sans-serif''),
       (''fontSizeMedium'', JStr ''1rem''), (''fontWeightNormal'', JNum 400)],
      [(''xSmall'', JStr ''0.5rem'')],
      [(''key'', JStr ''instructure''), (''colors'', JRef 1), (''typography'', JRef 3),
       (''spacing'', JRef 4)],
      [(''key'', JStr ''canvas''), (''colors'', JRef 1), (''typography'', JRef 3),
       (''spacing'', JRef 4)],
      [],
      [(''key'', JStr ''canvas''), (''colors'', JRef 9), (''typography'', JRef 11),
       (''spacing'', JRef 12), (''ic-brand-primary'', JStr ''#008EE2'')],
      [(''contrasts'', JRef 10)],
      [(''white1010'', JStr ''#FFFFFF''), (''grey1214'', JStr ''#E8EAEC''),
       (''grey125125'', JStr ''#273540''), (''blue4570'', JStr ''#2B7ABC'')],
      [(''fontFamily'', JStr ''LatoWeb, Lato, sans-serif''),
       (''fontSizeMedium'', JStr ''1rem''), (''fontWeightNormal'', JNum 400)],
      [(''xSmall'', JStr ''0.5rem'')],
      [(''toString'', JStr ''x'')],
      [(''key'', JRef 13)],
      [(''xSmall'', JRef 13)],
      [(''key'', JStr ''canvas''), (''spacing'', JRef 15)]]"

section \<open>The props of NumberInput\<close>

text \<open>
  \<^verbatim>\<open>ui-number-input/src/NumberInput/props.ts\<close> declares the props three times: as the
  TypeScript type \<^verbatim>\<open>NumberInputOwnProps\<close>, as the validators \<^verbatim>\<open>propTypes\<close> and as the list
  \<^verbatim>\<open>allowedProps\<close>. All three are data, and are embedded as such.
\<close>

datatype ts_type =
    TS_string
  | TS_number
  | TS_boolean
  | TS_function
  | TS_literals "string list"
  | TS_union "ts_type list"
  | TS_array ts_type
  | TS_named string

datatype presence = Required | Optional

text \<open>The type \<^verbatim>\<open>NumberInputOwnProps\<close>: \<^verbatim>\<open>k?: T\<close> is an optional property.\<close>

definition NumberInputOwnProps :: "(string \<times> presence \<times> ts_type) list" where
  "NumberInputOwnProps =
     [(''renderLabel'', Required, TS_union [TS_named ''React.ReactNode'', TS_function]),
      (''id'', Optional, TS_string),
      (''interaction'', Optional, TS_named ''InteractionType''),
      (''messages'', Optional, TS_array (TS_named ''FormMessage'')),
      (''placeholder'', Optional, TS_string),
      (''isRequired'', Optional, TS_boolean),
      (''showArrows'', Optional, TS_boolean),
      (''size'', Optional, TS_literals [''medium'', ''large'']),
      (''value'', Optional, TS_union [TS_string, TS_number]),
      (''width'', Optional, TS_string),
      (''display'', Optional, TS_literals [''inline-block'', ''block'']),
      (''inputRef'', Optional, TS_function),
      (''onFocus'', Optional, TS_function),
      (''onBlur'', Optional, TS_function),
      (''onChange'', Optional, TS_function),
      (''onDecrement'', Optional, TS_function),
      (''onIncrement'', Optional, TS_function),
      (''onKeyDown'', Optional, TS_function),
      (''inputMode'', Optional, TS_literals [''numeric'', ''decimal'', ''tel'']),
      (''textAlign'', Optional, TS_literals [''start'', ''center''])]"

text \<open>
  The validator expressions of \<^verbatim>\<open>propTypes\<close>: \<^verbatim>\<open>PropTypes.string\<close>, \<^verbatim>\<open>PropTypes.oneOf([...])\<close>
  and so on, \<^verbatim>\<open>FormPropTypes.message\<close> as a named validator of another package, and
  \<^verbatim>\<open>.isRequired\<close> as a wrapper.
\<close>

datatype prop_type =
    PT_string
  | PT_number
  | PT_bool
  | PT_func
  | PT_node
  | PT_oneOf "string list"
  | PT_oneOfType "prop_type list"
  | PT_arrayOf prop_type
  | PT_named string
  | PT_isRequired prop_type

definition propTypes :: "(string \<times> prop_type) list" where
  "propTypes =
     [(''renderLabel'', PT_isRequired (PT_oneOfType [PT_node, PT_func])),
      (''id'', PT_string),
      (''interaction'', PT_oneOf [''enabled'', ''disabled'', ''readonly'']),
      (''messages'', PT_arrayOf (PT_named ''FormPropTypes.message'')),
      (''placeholder'', PT_string),
      (''isRequired'', PT_bool),
      (''showArrows'', PT_bool),
      (''size'', PT_oneOf [''medium'', ''large'']),
      (''value'', PT_oneOfType [PT_string, PT_number]),
      (''width'', PT_string),
      (''display'', PT_oneOf [''inline-block'', ''block'']),
      (''inputRef'', PT_func),
      (''onFocus'', PT_func),
      (''onBlur'', PT_func),
      (''onChange'', PT_func),
      (''onDecrement'', PT_func),
      (''onIncrement'', PT_func),
      (''onKeyDown'', PT_func),
      (''inputMode'', PT_oneOf [''numeric'', ''decimal'', ''tel'']),
      (''textAlign'', PT_oneOf [''start'', ''center''])]"

definition allowedProps :: "string list" where
  "allowedProps =
     [''renderLabel'', ''id'', ''interaction'', ''messages'', ''placeholder'',
      ''isRequired'', ''showArrows'', ''size'', ''value'', ''width'', ''display'',
      ''inputRef'', ''onFocus'', ''onBlur'', ''onChange'', ''onDecrement'',
      ''onIncrement'', ''onKeyDown'', ''inputMode'', ''textAlign'']"

text \<open>
  Modelled from the spec: what a validator accepts. The checks themselves are made by
  the package \<^verbatim>\<open>prop-types\<close>, which is not among the sources. The spec describes an entry
  of a prop contract as an expected shape (string, function, enum of literals, object)
  plus a required/optional flag, and the validation as a warning for a missing required
  property or a wrong type. So a missing value passes exactly the validators not marked
  required, and a supplied value passes when it has the shape. A value is missing when
  it is \<^verbatim>\<open>undefined\<close> or \<^verbatim>\<open>null\<close>. Only the enum of literals is given a shape here: the
  values of the other shapes (functions, React nodes, arrays) are outside the values
  modelled, and their validators answer \<open>None\<close>.
\<close>

fun has_shape :: "prop_type \<Rightarrow> jsval \<Rightarrow> bool option" where
  "has_shape (PT_oneOf xs) v = Some (case v of JStr s \<Rightarrow> s \<in> set xs | _ \<Rightarrow> False)"
| "has_shape p v = None"

fun accepts :: "prop_type \<Rightarrow> jsval \<Rightarrow> bool option" where
  "accepts (PT_isRequired p) v = (if nullish v then Some False else has_shape p v)"
| "accepts p v = (if nullish v then Some True else has_shape p v)"

text \<open>Validating the value of one prop of NumberInput against \<^verbatim>\<open>propTypes\<close>.\<close>

definition check_prop :: "string \<Rightarrow> jsval \<Rightarrow> bool option" where
  "check_prop k v = (case map_of propTypes k of None \<Rightarrow> None | Some p \<Rightarrow> accepts p v)"

section \<open>The panel of Tabs\<close>

text \<open>
  The test \<^verbatim>\<open>ui-tabs/src/Tabs/Panel/__tests__/Panel.test.tsx\<close> mounts a panel, finds the
  element with the role \<^verbatim>\<open>tabpanel\<close> and reads its text content and its role attribute.
  A rendered tree is text or an element with a tag, attributes and children.
\<close>

datatype node = Text string | Element string "(string \<times> string) list" "node list"

fun text_content :: "node \<Rightarrow> string" where
  "text_content (Text s) = s"
| "text_content (Element t as cs) = concat (map text_content cs)"

fun get_attribute :: "node \<Rightarrow> string \<Rightarrow> string option" where
  "get_attribute (Text s) k = None"
| "get_attribute (Element t as cs) k = map_of as k"

text \<open>\<^verbatim>\<open>find('[role="r"]')\<close>: the first element in document order with that role.\<close>

fun find_role :: "string \<Rightarrow> node \<Rightarrow> node option"
  and find_role_list :: "string \<Rightarrow> node list \<Rightarrow> node option" where
  "find_role r (Text s) = None"
| "find_role r (Element t as cs) =
     (if map_of as ''role'' = Some r then Some (Element t as cs) else find_role_list r cs)"
| "find_role_list r [] = None"
| "find_role_list r (c # cs) =
     (case find_role r c of Some n \<Rightarrow> Some n | None \<Rightarrow> find_role_list r cs)"

text \<open>The props the test passes to the panel.\<close>

record panel_props =
  isSelected :: bool
  renderTitle :: string
  children :: "node list"

text \<open>
  Modelled from the spec: the rendering of \<^verbatim>\<open>Tabs.Panel\<close>, whose component is not among
  the sources (only its test is). The spec says that the panel renders its children
  inside a container carrying an accessibility role attribute when selected, and that
  the role is \<^verbatim>\<open>tabpanel\<close>. The spec names no tag, and says nothing of the panel that is
  not selected beyond that; the model takes a \<^verbatim>\<open>div\<close> and renders no children then.
\<close>

definition Panel :: "panel_props \<Rightarrow> node" where
  "Panel p =
     Element ''div'' [(''role'', ''tabpanel'')] (if isSelected p then children p else [])"

text \<open>
  Modelled from the spec: \<^verbatim>\<open>mount\<close> of the test utilities, which are not among the
  sources, puts the rendered tree into the document, where \<^verbatim>\<open>find\<close> searches.
\<close>

definition mount :: "node \<Rightarrow> node" where
  "mount n = Element ''body'' [] [n]"

section \<open>Properties\<close>

subsection \<open>Reads, allocation and one call\<close>

lemma member_Inr: "\<not> nullish v \<Longrightarrow> member h v k = Inr (opt_member h v k)"
  by (cases v) (simp_all add: member_def opt_member_def nullish_def)

lemma member_Inl: "nullish v \<Longrightarrow> member h v k = Inl TypeError"
  by (cases v) (simp_all add: member_def nullish_def)

lemma member_ref: "member h (JRef a) k = Inr (own (cell h a) k)"
  by (simp add: member_def)


lemma cell_append: "a < length h \<Longrightarrow> cell (h @ hs) a = cell h a"
  by (simp add: cell_def nth_append)

lemma opt_member_append: "val_ok h v \<Longrightarrow> opt_member (h @ hs) v k = opt_member h v k"
  by (cases v) (simp_all add: opt_member_def member_def val_ok_def cell_append)

lemma to_string_append: "val_ok h v \<Longrightarrow> to_string (h @ hs) v = to_string h v"
  by (cases v) (simp_all add: to_string_def val_ok_def cell_append)

lemma val_ok_append: "val_ok h v \<Longrightarrow> val_ok (h @ hs) v"
  by (cases v) (simp_all add: val_ok_def)

lemma own_in_set: "own ps k \<noteq> JUndefined \<Longrightarrow> (k, own ps k) \<in> set ps"
  by (auto simp: own_def split: option.splits dest: map_of_SomeD)

lemma val_ok_own:
  assumes "heap_ok h"
  shows "val_ok h (own (cell h a) k)"
proof (cases "own (cell h a) k = JUndefined")
  case True
  then show ?thesis by (simp add: val_ok_def)
next
  case False
  then have m: "(k, own (cell h a) k) \<in> set (cell h a)" by (rule own_in_set)
  then have "a < length h" by (auto simp: cell_def split: if_splits)
  with m have "h ! a \<in> set h" and "(k, own (cell h a) k) \<in> set (h ! a)"
    by (simp_all add: cell_def)
  with assms show ?thesis
    unfolding heap_ok_def list_all_iff by fastforce
qed

lemma val_ok_opt_member: "heap_ok h \<Longrightarrow> val_ok h (opt_member h v k)"
  by (cases v) (simp_all add: opt_member_def member_def val_ok_own, simp_all add: val_ok_def)

lemma val_ok_token: "heap_ok h \<Longrightarrow> val_ok h theme \<Longrightarrow> val_ok h (token h theme path)"
  unfolding token_def
  by (induction path arbitrary: theme) (simp_all add: val_ok_opt_member)

lemma token_append:
  assumes "heap_ok h" and "val_ok h theme"
  shows "token (h @ hs) theme path = token h theme path"
  using assms(2)
proof (induction path arbitrary: theme)
  case Nil
  then show ?case by (simp add: token_def)
next
  case (Cons k ks)
  have "val_ok h (opt_member h theme k)" using assms(1) by (rule val_ok_opt_member)
  from Cons.IH [OF this] Cons.prems show ?case
    by (simp add: token_def opt_member_append)
qed

subsection \<open>Writing properties\<close>

lemma map_of_put: "map_of (put k v ps) = (map_of ps)(k \<mapsto> v)"
  by (induction ps) (auto simp: fun_eq_iff)

lemma own_put: "own (put k v ps) k' = (if k' = k then v else own ps k')"
  by (simp add: own_def map_of_put)

lemma has_own_put: "has_own (put k v ps) k' = (k' = k \<or> has_own ps k')"
  by (simp add: has_own_def map_of_put)

lemma set_put: "set (put k v ps) \<subseteq> insert (k, v) (set ps)"
proof (induction ps)
  case Nil
  show ?case by simp
next
  case (Cons p ps)
  obtain k' v' where p: "p = (k', v')" by (cases p)
  show ?case using Cons.IH unfolding p by (cases "k = k'") auto
qed

lemma spread_Nil: "spread t [] = t"
  by (simp add: spread_def)

lemma spread_single: "spread t [(k, v)] = put k v t"
  by (simp add: spread_def)

lemma own_spread_override:
  "own (spread vars (override_of n b)) k =
     (if k = ''hoverBorderColor'' \<and> n = ''canvas'' then b else own vars k)"
  by (simp add: override_of_def spread_Nil spread_single own_put)

lemma has_own_spread_override:
  "has_own (spread vars (override_of n b)) k =
     ((k = ''hoverBorderColor'' \<and> n = ''canvas'') \<or> has_own vars k)"
  by (simp add: override_of_def spread_Nil spread_single has_own_put)

subsection \<open>Conversion to string\<close>

lemma show_nat_digits: "set (show_nat n) \<subseteq> set ''0123456789''"
proof (induction n rule: show_nat.induct)
  case (1 n)
  have d: "m < 10 \<Longrightarrow> ''0123456789'' ! m \<in> set ''0123456789''" for m :: nat
    by (rule nth_mem) simp
  show ?case
  proof (cases "n < 10")
    case True
    then show ?thesis using d [of n] by (subst show_nat.simps) simp
  next
    case False
    have "n mod 10 < 10" by simp
    from d [OF this] 1 [OF False] False show ?thesis
      by (subst show_nat.simps) simp
  qed
qed

lemma show_int_not_canvas: "show_int i \<noteq> ''canvas''"
proof
  assume e: "show_int i = ''canvas''"
  show False
  proof (cases "i < 0")
    case True
    with e show False by (simp add: show_int_def)
  next
    case False
    with e have "show_nat (nat i) = ''canvas''" by (simp add: show_int_def)
    with show_nat_digits [of "nat i"] show False by simp
  qed
qed

lemma to_string_canvas: "to_string h v = Inr ''canvas'' \<longleftrightarrow> v = JStr ''canvas''"
  by (cases v) (simp_all add: to_string_def show_int_not_canvas)

lemma to_string_error: "to_string h v = Inl e \<Longrightarrow> e = TypeError"
  by (cases e) simp

lemma converts_iff: "converts h v \<longleftrightarrow> (\<exists>s. to_string h v = Inr s)"
  by (cases "to_string h v") (simp_all add: converts_def)

lemma not_converts_iff: "\<not> converts h v \<longleftrightarrow> to_string h v = Inl TypeError"
  by (cases "to_string h v") (auto simp: converts_def dest: to_string_error)

lemma converts_string: "converts h (JStr s)"
  by (simp add: converts_def to_string_def)


lemma converts_append: "val_ok h v \<Longrightarrow> converts (h @ hs) v = converts h v"
  by (simp add: converts_def to_string_append)

subsection \<open>The base variables\<close>

lemma componentVariables_Inl:
  "to_string h (opt_member h s ''xSmall'') = Inl e \<Longrightarrow> componentVariables h c t s = Inl e"
  by (simp add: componentVariables_def)

lemma componentVariables_Inr:
  "to_string h (opt_member h s ''xSmall'') = Inr x \<Longrightarrow>
   componentVariables h c t s =
     Inr [(''fontSize'', opt_member h t ''fontSizeMedium''),
          (''fontFamily'', opt_member h t ''fontFamily''),
          (''fontWeight'', opt_member h t ''fontWeightNormal''),
          (''color'', opt_member h (opt_member h c ''contrasts'') ''grey125125''),
          (''background'', opt_member h (opt_member h c ''contrasts'') ''white1010''),
          (''borderColor'', opt_member h (opt_member h c ''contrasts'') ''grey1214''),
          (''hoverBorderColor'', opt_member h (opt_member h c ''contrasts'') ''blue4570''),
          (''padding'', JStr (x @ '' 0''))]"
  by (simp add: componentVariables_def)

lemma componentVariables_cases:
  obtains (throws) "to_string h (opt_member h s ''xSmall'') = Inl TypeError"
      "componentVariables h c t s = Inl TypeError"
  | (returns) x vars where "to_string h (opt_member h s ''xSmall'') = Inr x"
      "componentVariables h c t s = Inr vars"
proof (cases "to_string h (opt_member h s ''xSmall'')")
  case (Inl e)
  then have "e = TypeError" by (rule to_string_error)
  with Inl throws componentVariables_Inl show ?thesis by blast
next
  case (Inr x)
  from returns [OF Inr componentVariables_Inr [OF Inr]] show ?thesis .
qed

lemma own_componentVariables:
  assumes "componentVariables h c t s = Inr vars"
  shows "own vars ''fontSize'' = opt_member h t ''fontSizeMedium''"
    and "own vars ''fontFamily'' = opt_member h t ''fontFamily''"
    and "own vars ''fontWeight'' = opt_member h t ''fontWeightNormal''"
    and "own vars ''color'' = opt_member h (opt_member h c ''contrasts'') ''grey125125''"
    and "own vars ''background'' = opt_member h (opt_member h c ''contrasts'') ''white1010''"
    and "own vars ''borderColor'' = opt_member h (opt_member h c ''contrasts'') ''grey1214''"
    and "own vars ''hoverBorderColor'' = opt_member h (opt_member h c ''contrasts'') ''blue4570''"
    and "to_string h (opt_member h s ''xSmall'') = Inr x \<Longrightarrow> own vars ''padding'' = JStr (x @ '' 0'')"
  using assms
  by (auto simp: componentVariables_def own_def split: sum.splits)

lemma has_own_componentVariables:
  assumes "componentVariables h c t s = Inr vars"
  shows "list_all (has_own vars) theme_keys"
  using assms
  by (auto simp: componentVariables_def has_own_def theme_keys_def split: sum.splits)

lemma spread_literal:
  assumes "componentVariables h c t s = Inr vars"
  shows "spread [] vars = vars"
  using assms
  by (auto simp: componentVariables_def spread_def split: sum.splits)

lemma componentVariables_append:
  assumes "heap_ok h" "val_ok h c" "val_ok h t" "val_ok h s"
  shows "componentVariables (h @ hs) c t s = componentVariables h c t s"
  using assms
  by (simp add: componentVariables_def opt_member_append val_ok_opt_member to_string_append
      split: sum.splits)

lemma componentVariables_values:
  assumes "heap_ok h" and "componentVariables h c t s = Inr vars" and "kv \<in> set vars"
  shows "val_ok h (snd kv)"
proof -
  have j: "val_ok h (JStr x)" for x by (simp add: val_ok_def)
  from assms(2,3) show ?thesis
    by (auto simp: componentVariables_def val_ok_opt_member [OF assms(1)] j split: sum.splits)
qed

subsection \<open>The run of a call\<close>

lemma generateComponentTheme_throws:
  "nullish theme \<Longrightarrow> generateComponentTheme h theme = (Inl TypeError, h)"
  by (simp add: generateComponentTheme_def member_Inl)

lemma theme_objectD:
  assumes "theme_object h theme"
  shows "heap_ok h" and "val_ok h theme" and "\<not> nullish theme"
  using assms by (cases theme; simp add: theme_object_def val_ok_def nullish_def)+

lemma generateComponentTheme_run:
  assumes t: "theme_object h theme"
  shows "generateComponentTheme h theme =
    (case componentVariables h (token h theme [''colors''])
            (token h theme [''typography'']) (token h theme [''spacing'']) of
       Inl e \<Rightarrow>
         (Inl e,
          h @ [[(''hoverBorderColor'', token h theme [''ic-brand-primary''])],
               [(''canvas'', JRef (length h))]])
     | Inr vars \<Rightarrow>
         (case to_string h (token h theme [''key'']) of
            Inl e \<Rightarrow>
              (Inl e,
               h @ [[(''hoverBorderColor'', token h theme [''ic-brand-primary''])],
                    [(''canvas'', JRef (length h))], vars])
          | Inr n \<Rightarrow>
              (Inr (JRef (length h + 3)),
               h @ [[(''hoverBorderColor'', token h theme [''ic-brand-primary''])],
                    [(''canvas'', JRef (length h))], vars,
                    spread vars (override_of n (token h theme [''ic-brand-primary'']))])))"
proof -
  note ok = theme_objectD(1) [OF t] and th = theme_objectD(2) [OF t]
    and nn = theme_objectD(3) [OF t]
  let ?c = "opt_member h theme ''colors''"
  let ?t = "opt_member h theme ''typography''"
  let ?s = "opt_member h theme ''spacing''"
  let ?key = "opt_member h theme ''key''"
  let ?canvas = "[(''hoverBorderColor'', opt_member h theme ''ic-brand-primary'')]"
  let ?tss = "[(''canvas'', JRef (length h))]"
  have cv: "componentVariables (h @ [?canvas] @ [?tss]) ?c ?t ?s = componentVariables h ?c ?t ?s"
    using ok by (rule componentVariables_append) (rule val_ok_opt_member [OF ok])+
  have key: "to_string (h @ [?canvas, ?tss, vars]) ?key = to_string h ?key" for vars
    by (rule to_string_append) (rule val_ok_opt_member [OF ok])
  have tss: "cell (h @ [?canvas, ?tss, vars]) (Suc (length h)) = ?tss" for vars
    by (simp add: cell_def nth_append)
  have var: "cell (h @ [?canvas, ?tss, vars]) (Suc (Suc (length h))) = vars" for vars
    by (simp add: cell_def nth_append)
  have can: "cell (h @ [?canvas, ?tss, vars]) (length h) = ?canvas" for vars
    by (simp add: cell_def nth_append)
  show ?thesis
  proof (cases "componentVariables h ?c ?t ?s")
    case (Inl e)
    with cv show ?thesis
      by (simp add: generateComponentTheme_def member_Inr [OF nn] alloc_def token_def)
  next
    case (Inr vars)
    note lit = spread_literal [OF Inr]
    show ?thesis
    proof (cases "to_string h ?key")
      case (Inl e)
      with Inr cv key show ?thesis
        by (simp add: generateComponentTheme_def member_Inr [OF nn] alloc_def token_def)
    next
      case r: (Inr n)
      with Inr cv key show ?thesis
        by (simp add: generateComponentTheme_def member_Inr [OF nn] alloc_def token_def
            member_ref own_enumerable_def tss var can own_def lit override_of_def)
    qed
  qed
qed

lemma theme_converts_cases:
  obtains (returns) n x where "theme_converts h theme"
      "to_string h (token h theme [''key'']) = Inr n"
      "to_string h (token h theme [''spacing'', ''xSmall'']) = Inr x"
  | (throws) "\<not> theme_converts h theme"
  by (auto simp: theme_converts_def converts_iff)

lemma theme_converts_variables:
  assumes "to_string h (token h theme [''spacing'', ''xSmall'']) = Inr x"
  obtains vars where
    "componentVariables h (token h theme [''colors''])
       (token h theme [''typography'']) (token h theme [''spacing'']) = Inr vars"
  using assms componentVariables_Inr [of h "token h theme [''spacing'']" x]
  by (simp add: token_def)

lemma generateComponentTheme_returns:
  assumes t: "theme_object h theme"
    and vars: "componentVariables h (token h theme [''colors''])
       (token h theme [''typography'']) (token h theme [''spacing'']) = Inr vars"
    and key: "to_string h (token h theme [''key'']) = Inr n"
  shows "generateComponentTheme h theme =
    (Inr (JRef (length h + 3)),
     h @ [[(''hoverBorderColor'', token h theme [''ic-brand-primary''])],
          [(''canvas'', JRef (length h))], vars,
          spread vars (override_of n (token h theme [''ic-brand-primary'']))])"
  by (simp add: generateComponentTheme_run [OF t] vars key)

lemma generateComponentTheme_fails:
  assumes t: "theme_object h theme" and "\<not> theme_converts h theme"
  shows "fst (generateComponentTheme h theme) = Inl TypeError"
proof (cases "converts h (token h theme [''spacing'', ''xSmall''])")
  case False
  then have "to_string h (opt_member h (token h theme [''spacing'']) ''xSmall'') = Inl TypeError"
    by (simp add: not_converts_iff token_def)
  then have "componentVariables h (token h theme [''colors''])
       (token h theme [''typography'']) (token h theme [''spacing'']) = Inl TypeError"
    by (rule componentVariables_Inl)
  then show ?thesis by (simp add: generateComponentTheme_run [OF t])
next
  case True
  with assms(2) have k: "to_string h (token h theme [''key'']) = Inl TypeError"
    by (simp add: theme_converts_def not_converts_iff)
  from True obtain x where "to_string h (token h theme [''spacing'', ''xSmall'']) = Inr x"
    by (auto simp: converts_iff)
  then obtain vars where "componentVariables h (token h theme [''colors''])
       (token h theme [''typography'']) (token h theme [''spacing'']) = Inr vars"
    by (rule theme_converts_variables)
  with k show ?thesis by (simp add: generateComponentTheme_run [OF t])
qed

lemma returned_eq:
  assumes t: "theme_object h theme"
    and vars: "componentVariables h (token h theme [''colors''])
       (token h theme [''typography'']) (token h theme [''spacing'']) = Inr vars"
    and key: "to_string h (token h theme [''key'']) = Inr n"
  shows "returned h theme =
    Some (spread vars (override_of n (token h theme [''ic-brand-primary''])))"
  by (simp add: returned_def generateComponentTheme_returns [OF assms] cell_def nth_append)

lemma returned_prop_eq:
  assumes t: "theme_object h theme"
    and vars: "componentVariables h (token h theme [''colors''])
       (token h theme [''typography'']) (token h theme [''spacing'']) = Inr vars"
    and key: "to_string h (token h theme [''key'']) = Inr n"
  shows "returned_prop h theme k =
    Some (if k = ''hoverBorderColor'' \<and> token h theme [''key''] = JStr ''canvas''
          then token h theme [''ic-brand-primary''] else own vars k)"
proof -
  have "n = ''canvas'' \<longleftrightarrow> token h theme [''key''] = JStr ''canvas''"
    using key to_string_canvas [of h "token h theme [''key'']"] by auto
  then show ?thesis
    by (simp add: returned_prop_def returned_eq [OF assms] own_spread_override)
qed

lemma returned_has_eq:
  assumes t: "theme_object h theme"
    and vars: "componentVariables h (token h theme [''colors''])
       (token h theme [''typography'']) (token h theme [''spacing'']) = Inr vars"
    and key: "to_string h (token h theme [''key'']) = Inr n"
  shows "returned_has h theme k =
    ((k = ''hoverBorderColor'' \<and> n = ''canvas'') \<or> has_own vars k)"
  by (simp add: returned_has_def returned_eq [OF assms] has_own_spread_override)

lemma own_variables:
  assumes "componentVariables h (token h theme [''colors''])
       (token h theme [''typography'']) (token h theme [''spacing'']) = Inr vars"
  shows "own vars ''fontSize'' = token h theme [''typography'', ''fontSizeMedium'']"
    and "own vars ''fontFamily'' = token h theme [''typography'', ''fontFamily'']"
    and "own vars ''fontWeight'' = token h theme [''typography'', ''fontWeightNormal'']"
    and "own vars ''color'' = token h theme [''colors'', ''contrasts'', ''grey125125'']"
    and "own vars ''background'' = token h theme [''colors'', ''contrasts'', ''white1010'']"
    and "own vars ''borderColor'' = token h theme [''colors'', ''contrasts'', ''grey1214'']"
    and "own vars ''hoverBorderColor'' = token h theme [''colors'', ''contrasts'', ''blue4570'']"
    and "to_string h (token h theme [''spacing'', ''xSmall'']) = Inr x \<Longrightarrow>
         own vars ''padding'' = JStr (x @ '' 0'')"
  using own_componentVariables [OF assms]
  by (simp_all add: token_def)

lemma heap_ok_example: "heap_ok example_heap"
  by (simp add: heap_ok_def example_heap_def val_ok_def)

lemma theme_object_example: "a < 17 \<Longrightarrow> theme_object example_heap (JRef a)"
  by (simp add: theme_object_def heap_ok_example) (simp add: example_heap_def)

lemmas example_eval =
  token_def opt_member_def member_def cell_def own_def has_own_def to_string_def
  converts_def theme_converts_def example_heap_def

subsection \<open>The component theme a call returns\<close>

lemma returned_None:
  assumes "fst (generateComponentTheme h theme) = Inl e"
  shows "returned h theme = None"
  using assms by (cases "generateComponentTheme h theme") (simp add: returned_def)

lemma returned_SomeD:
  assumes t: "theme_object h theme" and r: "returned h theme = Some res"
  obtains vars n x where
    "componentVariables h (token h theme [''colors''])
       (token h theme [''typography'']) (token h theme [''spacing'']) = Inr vars"
    and "to_string h (token h theme [''key'']) = Inr n"
    and "to_string h (token h theme [''spacing'', ''xSmall'']) = Inr x"
    and "res = spread vars (override_of n (token h theme [''ic-brand-primary'']))"
proof (cases h theme rule: theme_converts_cases)
  case (returns n x)
  from returns(3) obtain vars where
    v: "componentVariables h (token h theme [''colors''])
       (token h theme [''typography'']) (token h theme [''spacing'']) = Inr vars"
    by (rule theme_converts_variables)
  from returned_eq [OF t v returns(2)] r
  have "res = spread vars (override_of n (token h theme [''ic-brand-primary'']))" by simp
  with that v returns show ?thesis by blast
next
  case throws
  from generateComponentTheme_fails [OF t throws] have "returned h theme = None"
    by (rule returned_None)
  with r show ?thesis by simp
qed

lemma own_returned:
  assumes t: "theme_object h theme" and r: "returned h theme = Some res"
  shows "\<exists>vars.
    componentVariables h (token h theme [''colors''])
       (token h theme [''typography'']) (token h theme [''spacing'']) = Inr vars \<and>
    (\<forall>k. own res k =
      (if k = ''hoverBorderColor'' \<and> token h theme [''key''] = JStr ''canvas''
       then token h theme [''ic-brand-primary''] else own vars k)) \<and>
    (\<forall>k. has_own res k =
      ((k = ''hoverBorderColor'' \<and> token h theme [''key''] = JStr ''canvas'') \<or> has_own vars k))"
proof -
  from t r obtain vars n x where
    v: "componentVariables h (token h theme [''colors''])
       (token h theme [''typography'']) (token h theme [''spacing'']) = Inr vars"
    and n: "to_string h (token h theme [''key'']) = Inr n"
    and res: "res = spread vars (override_of n (token h theme [''ic-brand-primary'']))"
    by (rule returned_SomeD)
  have c: "n = ''canvas'' \<longleftrightarrow> token h theme [''key''] = JStr ''canvas''"
    using n to_string_canvas [of h "token h theme [''key'']"] by auto
  from v show ?thesis
    by (simp add: res own_spread_override has_own_spread_override c)
qed

lemma returned_example:
  "returned example_heap (JRef 0) =
     Some [(''fontSize'', JStr ''1rem''),
           (''fontFamily'', JStr ''LatoWeb, Lato, sans-serif''),
           (''fontWeight'', JNum 400),
           (''color'', JStr ''#273540''),
           (''background'', JStr ''#FFFFFF''),
           (''borderColor'', JStr ''#E8EAEC''),
           (''hoverBorderColor'', JStr ''#008EE2''),
           (''padding'', JStr ''0.5rem 0'')]"
proof -
  have t: "theme_object example_heap (JRef 0)" by (simp add: theme_object_example)
  have x: "to_string example_heap (opt_member example_heap
      (token example_heap (JRef 0) [''spacing'']) ''xSmall'') = Inr ''0.5rem''"
    by (simp add: example_eval)
  have k: "to_string example_heap (token example_heap (JRef 0) [''key'']) = Inr ''canvas''"
    by (simp add: example_eval)
  show ?thesis
    unfolding returned_eq [OF t componentVariables_Inr [OF x] k]
    by (simp add: override_of_def spread_single) (simp add: example_eval)
qed

text \<open>
  Claim C1, as amended. For every theme object whose typography, spacing and colour
  tokens are present and for which the call returns, the returned component theme has
  \<open>fontSize\<close> equal to the theme's \<open>typography.fontSizeMedium\<close> token and \<open>fontFamily\<close>
  equal to its \<open>typography.fontFamily\<close> token; \<open>padding\<close> is not the \<open>spacing.xSmall\<close>
  token itself but the string made of that token, converted to a string, followed by
  \<^verbatim>\<open> 0\<close>, as the template literal builds it.
\<close>

theorem component_theme_tokens:
  assumes "theme_object h theme" and "tokens_present h theme"
    and "returned h theme = Some res"
  shows "own res ''fontSize'' = token h theme [''typography'', ''fontSizeMedium''] \<and>
         own res ''fontFamily'' = token h theme [''typography'', ''fontFamily''] \<and>
         (\<exists>x. to_string h (token h theme [''spacing'', ''xSmall'']) = Inr x \<and>
              own res ''padding'' = JStr (x @ '' 0''))"
proof -
  from assms(1,3) obtain vars n x where
    v: "componentVariables h (token h theme [''colors''])
       (token h theme [''typography'']) (token h theme [''spacing'']) = Inr vars"
    and x: "to_string h (token h theme [''spacing'', ''xSmall'']) = Inr x"
    and res: "res = spread vars (override_of n (token h theme [''ic-brand-primary'']))"
    by (rule returned_SomeD)
  from x show ?thesis
    by (simp add: res own_spread_override own_variables [OF v])
qed

text \<open>The theorem at the canvas theme of the example store.\<close>

theorem component_theme_tokens_witness:
  "theme_object example_heap (JRef 0) \<and> tokens_present example_heap (JRef 0) \<and>
   returned example_heap (JRef 0) \<noteq> None \<and>
   token example_heap (JRef 0) [''spacing'', ''xSmall''] = JStr ''0.5rem'' \<and>
   own (the (returned example_heap (JRef 0))) ''fontSize'' = JStr ''1rem'' \<and>
   own (the (returned example_heap (JRef 0))) ''fontFamily'' = JStr ''LatoWeb, Lato, sans-serif'' \<and>
   own (the (returned example_heap (JRef 0))) ''padding'' = JStr ''0.5rem 0''"
proof -
  have t: "theme_object example_heap (JRef 0)" by (simp add: theme_object_example)
  have p: "tokens_present example_heap (JRef 0)"
    by (simp add: tokens_present_def theme_paths_def nullish_def) (simp add: example_eval)
  have tok: "token example_heap (JRef 0) [''spacing'', ''xSmall''] = JStr ''0.5rem''"
    "token example_heap (JRef 0) [''typography'', ''fontSizeMedium''] = JStr ''1rem''"
    "token example_heap (JRef 0) [''typography'', ''fontFamily''] = JStr ''LatoWeb, Lato, sans-serif''"
    by (simp_all add: example_eval)
  from component_theme_tokens [OF t p returned_example] t p show ?thesis
    unfolding tok by (simp add: returned_example to_string_def)
qed

text \<open>
  Claim C1 as stated fails: with the token \<^verbatim>\<open>0.5rem\<close> the padding is \<^verbatim>\<open>0.5rem 0\<close>.
\<close>

theorem padding_is_not_the_token:
  "tokens_present example_heap (JRef 0) \<and>
   token example_heap (JRef 0) [''spacing'', ''xSmall''] = JStr ''0.5rem'' \<and>
   returned_prop example_heap (JRef 0) ''padding'' = Some (JStr ''0.5rem 0'') \<and>
   returned_prop example_heap (JRef 0) ''padding'' \<noteq>
     Some (token example_heap (JRef 0) [''spacing'', ''xSmall''])"
proof -
  have p: "tokens_present example_heap (JRef 0)"
    by (simp add: tokens_present_def theme_paths_def nullish_def) (simp add: example_eval)
  have tok: "token example_heap (JRef 0) [''spacing'', ''xSmall''] = JStr ''0.5rem''"
    by (simp add: example_eval)
  show ?thesis
    unfolding tok by (simp add: p returned_prop_def returned_example own_def)
qed

subsection \<open>Overrides and resolved keys\<close>

text \<open>
  Claim C2. For every theme object whose key is \<^verbatim>\<open>canvas\<close>, the component theme the
  call returns has \<open>hoverBorderColor\<close> equal to the theme's \<^verbatim>\<open>ic-brand-primary\<close> value;
  where that value differs from the default \<open>colors.contrasts.blue4570\<close>, the result is
  not the default.
\<close>

theorem canvas_hover_override:
  assumes "theme_object h theme" and "token h theme [''key''] = JStr ''canvas''"
    and "returned h theme = Some res"
  shows "own res ''hoverBorderColor'' = token h theme [''ic-brand-primary''] \<and>
         (token h theme [''ic-brand-primary''] \<noteq> token h theme [''colors'', ''contrasts'', ''blue4570'']
          \<longrightarrow> own res ''hoverBorderColor'' \<noteq> token h theme [''colors'', ''contrasts'', ''blue4570''])"
proof -
  from own_returned [OF assms(1,3)] obtain vars where
    "\<forall>k. own res k =
      (if k = ''hoverBorderColor'' \<and> token h theme [''key''] = JStr ''canvas''
       then token h theme [''ic-brand-primary''] else own vars k)"
    by blast
  with assms(2) show ?thesis by simp
qed

text \<open>
  The theorem at the canvas theme of the example store, whose brand colour differs
  from the default: the call returns.
\<close>

theorem canvas_hover_override_witness:
  "theme_object example_heap (JRef 0) \<and>
   token example_heap (JRef 0) [''key''] = JStr ''canvas'' \<and>
   token example_heap (JRef 0) [''ic-brand-primary''] = JStr ''#008EE2'' \<and>
   token example_heap (JRef 0) [''colors'', ''contrasts'', ''blue4570''] = JStr ''#2B7ABC'' \<and>
   returned example_heap (JRef 0) \<noteq> None \<and>
   own (the (returned example_heap (JRef 0))) ''hoverBorderColor'' = JStr ''#008EE2'' \<and>
   own (the (returned example_heap (JRef 0))) ''hoverBorderColor'' \<noteq> JStr ''#2B7ABC''"
proof -
  have t: "theme_object example_heap (JRef 0)" by (simp add: theme_object_example)
  have tok: "token example_heap (JRef 0) [''key''] = JStr ''canvas''"
    "token example_heap (JRef 0) [''ic-brand-primary''] = JStr ''#008EE2''"
    "token example_heap (JRef 0) [''colors'', ''contrasts'', ''blue4570''] = JStr ''#2B7ABC''"
    by (simp_all add: example_eval)
  from canvas_hover_override [OF t tok(1) returned_example] t show ?thesis
    unfolding tok by (simp add: returned_example)
qed

text \<open>
  Claim C3. For every theme object whose key is not \<^verbatim>\<open>canvas\<close>, the component theme
  the call returns is the base \<open>componentVariables\<close> object, property for property and
  in the same order: the merge with no override is the identity.
\<close>

theorem no_override_identity:
  assumes "theme_object h theme" and "token h theme [''key''] \<noteq> JStr ''canvas''"
    and "returned h theme = Some res"
  shows "componentVariables h (token h theme [''colors''])
           (token h theme [''typography'']) (token h theme [''spacing'']) = Inr res"
proof -
  from assms(1,3) obtain vars n x where
    v: "componentVariables h (token h theme [''colors''])
       (token h theme [''typography'']) (token h theme [''spacing'']) = Inr vars"
    and n: "to_string h (token h theme [''key'']) = Inr n"
    and res: "res = spread vars (override_of n (token h theme [''ic-brand-primary'']))"
    by (rule returned_SomeD)
  from n assms(2) have "n \<noteq> ''canvas''"
    using to_string_canvas [of h "token h theme [''key'']"] by auto
  then have "res = vars" by (simp add: res override_of_def spread_Nil)
  with v show ?thesis by simp
qed

text \<open>
  The theorem at the theme with the key \<^verbatim>\<open>instructure\<close> of the example store: the
  call returns.
\<close>

theorem no_override_identity_witness:
  "theme_object example_heap (JRef 5) \<and>
   token example_heap (JRef 5) [''key''] = JStr ''instructure'' \<and>
   returned example_heap (JRef 5) =
     Some [(''fontSize'', JStr ''1rem''),
           (''fontFamily'', JStr ''LatoWeb, Lato, sans-serif''),
           (''fontWeight'', JNum 400),
           (''color'', JStr ''#273540''),
           (''background'', JStr ''#FFFFFF''),
           (''borderColor'', JStr ''#E8EAEC''),
           (''hoverBorderColor'', JStr ''#2B7ABC''),
           (''padding'', JStr ''0.5rem 0'')] \<and>
   componentVariables example_heap (JRef 1) (JRef 3) (JRef 4) =
     Inr (the (returned example_heap (JRef 5)))"
proof -
  have t: "theme_object example_heap (JRef 5)" by (simp add: theme_object_example)
  have tok: "token example_heap (JRef 5) [''key''] = JStr ''instructure''"
    "token example_heap (JRef 5) [''colors''] = JRef 1"
    "token example_heap (JRef 5) [''typography''] = JRef 3"
    "token example_heap (JRef 5) [''spacing''] = JRef 4"
    by (simp_all add: example_eval)
  have x: "to_string example_heap (opt_member example_heap
      (token example_heap (JRef 5) [''spacing'']) ''xSmall'') = Inr ''0.5rem''"
    by (simp add: example_eval)
  have k: "to_string example_heap (token example_heap (JRef 5) [''key'']) = Inr ''instructure''"
    by (simp add: example_eval)
  have r: "returned example_heap (JRef 5) =
     Some [(''fontSize'', JStr ''1rem''),
           (''fontFamily'', JStr ''LatoWeb, Lato, sans-serif''),
           (''fontWeight'', JNum 400),
           (''color'', JStr ''#273540''),
           (''background'', JStr ''#FFFFFF''),
           (''borderColor'', JStr ''#E8EAEC''),
           (''hoverBorderColor'', JStr ''#2B7ABC''),
           (''padding'', JStr ''0.5rem 0'')]"
    unfolding returned_eq [OF t componentVariables_Inr [OF x] k]
    by (simp add: override_of_def spread_Nil) (simp add: example_eval)
  have n: "token example_heap (JRef 5) [''key''] \<noteq> JStr ''canvas''"
    by (simp add: tok)
  from no_override_identity [OF t n r] t r show ?thesis
    unfolding tok by simp
qed

text \<open>
  Claim C4, as amended. For every theme object the call accepts, that is, for which it
  returns, each of the eight keys of the component theme is an own property of the
  returned object, and its value is defined whenever the token it is read from is
  defined: the base token, or for \<open>hoverBorderColor\<close> under the key \<^verbatim>\<open>canvas\<close> the
  theme's \<^verbatim>\<open>ic-brand-primary\<close> value.
\<close>

theorem theme_keys_resolved:
  assumes "theme_object h theme" and "returned h theme = Some res"
  shows "list_all (has_own res) theme_keys \<and>
    (token h theme [''typography'', ''fontSizeMedium''] \<noteq> JUndefined \<longrightarrow>
       own res ''fontSize'' \<noteq> JUndefined) \<and>
    (token h theme [''typography'', ''fontFamily''] \<noteq> JUndefined \<longrightarrow>
       own res ''fontFamily'' \<noteq> JUndefined) \<and>
    (token h theme [''typography'', ''fontWeightNormal''] \<noteq> JUndefined \<longrightarrow>
       own res ''fontWeight'' \<noteq> JUndefined) \<and>
    (token h theme [''colors'', ''contrasts'', ''grey125125''] \<noteq> JUndefined \<longrightarrow>
       own res ''color'' \<noteq> JUndefined) \<and>
    (token h theme [''colors'', ''contrasts'', ''white1010''] \<noteq> JUndefined \<longrightarrow>
       own res ''background'' \<noteq> JUndefined) \<and>
    (token h theme [''colors'', ''contrasts'', ''grey1214''] \<noteq> JUndefined \<longrightarrow>
       own res ''borderColor'' \<noteq> JUndefined) \<and>
    (token h theme [''key''] \<noteq> JStr ''canvas'' \<and>
     token h theme [''colors'', ''contrasts'', ''blue4570''] \<noteq> JUndefined \<longrightarrow>
       own res ''hoverBorderColor'' \<noteq> JUndefined) \<and>
    (token h theme [''key''] = JStr ''canvas'' \<and>
     token h theme [''ic-brand-primary''] \<noteq> JUndefined \<longrightarrow>
       own res ''hoverBorderColor'' \<noteq> JUndefined) \<and>
    (token h theme [''spacing'', ''xSmall''] \<noteq> JUndefined \<longrightarrow>
       own res ''padding'' \<noteq> JUndefined)"
proof -
  from own_returned [OF assms] obtain vars where
    v: "componentVariables h (token h theme [''colors''])
       (token h theme [''typography'']) (token h theme [''spacing'']) = Inr vars"
    and o: "\<forall>k. own res k =
      (if k = ''hoverBorderColor'' \<and> token h theme [''key''] = JStr ''canvas''
       then token h theme [''ic-brand-primary''] else own vars k)"
    and ho: "\<forall>k. has_own res k =
      ((k = ''hoverBorderColor'' \<and> token h theme [''key''] = JStr ''canvas'') \<or> has_own vars k)"
    by blast
  from assms obtain x where x: "to_string h (token h theme [''spacing'', ''xSmall'']) = Inr x"
    by (rule returned_SomeD)
  have "list_all (has_own vars) theme_keys"
    using v unfolding token_def by (rule has_own_componentVariables)
  then have keys: "list_all (has_own res) theme_keys"
    by (simp add: list_all_iff ho)
  show ?thesis
    using keys by (simp add: o own_variables(1-7) [OF v] own_variables(8) [OF v x])
qed

text \<open>
  The theorem at the canvas theme of the example store, all of whose tokens are
  defined: the call returns.
\<close>

theorem theme_keys_resolved_witness:
  "theme_object example_heap (JRef 0) \<and> returned example_heap (JRef 0) \<noteq> None \<and>
   list_all (has_own (the (returned example_heap (JRef 0)))) theme_keys \<and>
   token example_heap (JRef 0) [''typography'', ''fontWeightNormal''] = JNum 400 \<and>
   token example_heap (JRef 0) [''key''] = JStr ''canvas'' \<and>
   token example_heap (JRef 0) [''ic-brand-primary''] = JStr ''#008EE2'' \<and>
   own (the (returned example_heap (JRef 0))) ''fontSize'' \<noteq> JUndefined \<and>
   own (the (returned example_heap (JRef 0))) ''fontFamily'' \<noteq> JUndefined \<and>
   own (the (returned example_heap (JRef 0))) ''fontWeight'' \<noteq> JUndefined \<and>
   own (the (returned example_heap (JRef 0))) ''color'' \<noteq> JUndefined \<and>
   own (the (returned example_heap (JRef 0))) ''background'' \<noteq> JUndefined \<and>
   own (the (returned example_heap (JRef 0))) ''borderColor'' \<noteq> JUndefined \<and>
   own (the (returned example_heap (JRef 0))) ''hoverBorderColor'' \<noteq> JUndefined \<and>
   own (the (returned example_heap (JRef 0))) ''padding'' \<noteq> JUndefined"
proof -
  have t: "theme_object example_heap (JRef 0)" by (simp add: theme_object_example)
  have tok:
    "token example_heap (JRef 0) [''typography'', ''fontSizeMedium''] = JStr ''1rem''"
    "token example_heap (JRef 0) [''typography'', ''fontFamily''] = JStr ''LatoWeb, Lato, sans-serif''"
    "token example_heap (JRef 0) [''typography'', ''fontWeightNormal''] = JNum 400"
    "token example_heap (JRef 0) [''colors'', ''contrasts'', ''grey125125''] = JStr ''#273540''"
    "token example_heap (JRef 0) [''colors'', ''contrasts'', ''white1010''] = JStr ''#FFFFFF''"
    "token example_heap (JRef 0) [''colors'', ''contrasts'', ''grey1214''] = JStr ''#E8EAEC''"
    "token example_heap (JRef 0) [''key''] = JStr ''canvas''"
    "token example_heap (JRef 0) [''ic-brand-primary''] = JStr ''#008EE2''"
    "token example_heap (JRef 0) [''spacing'', ''xSmall''] = JStr ''0.5rem''"
    by (simp_all add: example_eval)
  from theme_keys_resolved [OF t returned_example] t show ?thesis
    unfolding tok by (simp add: returned_example)
qed

text \<open>
  Claim C4 as stated fails: the empty theme is accepted, and its component theme has
  \<^verbatim>\<open>undefined\<close> under \<open>fontSize\<close> and \<open>hoverBorderColor\<close>.
\<close>

theorem empty_theme_unresolved:
  "theme_object example_heap (JRef 7) \<and>
   returned_prop example_heap (JRef 7) ''fontSize'' = Some JUndefined \<and>
   returned_prop example_heap (JRef 7) ''hoverBorderColor'' = Some JUndefined"
proof -
  have t: "theme_object example_heap (JRef 7)" by (simp add: theme_object_example)
  have x: "to_string example_heap (opt_member example_heap
      (token example_heap (JRef 7) [''spacing'']) ''xSmall'') = Inr ''undefined''"
    by (simp add: example_eval)
  have k: "to_string example_heap (token example_heap (JRef 7) [''key'']) = Inr ''undefined''"
    by (simp add: example_eval)
  show ?thesis
    by (simp add: t returned_prop_eq [OF t componentVariables_Inr [OF x] k])
       (simp add: example_eval)
qed

subsection \<open>Partial themes\<close>





text \<open>
  Claim C10. For a theme object whose key is \<^verbatim>\<open>canvas\<close> and whose \<^verbatim>\<open>ic-brand-primary\<close>
  is \<^verbatim>\<open>undefined\<close>, the spread still applies the override: in the component theme the
  call returns, \<open>hoverBorderColor\<close> is an own property with the value \<^verbatim>\<open>undefined\<close>,
  whatever the default \<open>colors.contrasts.blue4570\<close> is, and every other property has
  its value of the base \<open>componentVariables\<close>.
\<close>

theorem canvas_without_brand:
  assumes "theme_object h theme" and "token h theme [''key''] = JStr ''canvas''"
    and "token h theme [''ic-brand-primary''] = JUndefined"
    and "returned h theme = Some res"
  shows "has_own res ''hoverBorderColor'' \<and> own res ''hoverBorderColor'' = JUndefined \<and>
    (\<exists>base. componentVariables h (token h theme [''colors''])
               (token h theme [''typography'']) (token h theme [''spacing'']) = Inr base \<and>
            (\<forall>k. k \<noteq> ''hoverBorderColor'' \<longrightarrow> own res k = own base k))"
  using own_returned [OF assms(1,4)] assms(2,3) by auto

text \<open>
  The theorem at the canvas theme without a brand colour of the example store, whose
  default hover colour is defined: the call returns.
\<close>

theorem canvas_without_brand_witness:
  "theme_object example_heap (JRef 6) \<and>
   token example_heap (JRef 6) [''key''] = JStr ''canvas'' \<and>
   token example_heap (JRef 6) [''ic-brand-primary''] = JUndefined \<and>
   token example_heap (JRef 6) [''colors'', ''contrasts'', ''blue4570''] = JStr ''#2B7ABC'' \<and>
   returned example_heap (JRef 6) \<noteq> None \<and>
   has_own (the (returned example_heap (JRef 6))) ''hoverBorderColor'' \<and>
   own (the (returned example_heap (JRef 6))) ''hoverBorderColor'' = JUndefined \<and>
   own (the (returned example_heap (JRef 6))) ''fontSize'' = JStr ''1rem'' \<and>
   own (the (returned example_heap (JRef 6))) ''borderColor'' = JStr ''#E8EAEC'' \<and>
   own (the (returned example_heap (JRef 6))) ''padding'' = JStr ''0.5rem 0''"
proof -
  have t: "theme_object example_heap (JRef 6)" by (simp add: theme_object_example)
  have k: "token example_heap (JRef 6) [''key''] = JStr ''canvas''"
    and b: "token example_heap (JRef 6) [''ic-brand-primary''] = JUndefined"
    and d: "token example_heap (JRef 6) [''colors'', ''contrasts'', ''blue4570''] = JStr ''#2B7ABC''"
    by (simp_all add: example_eval)
  have x: "to_string example_heap (opt_member example_heap
      (token example_heap (JRef 6) [''spacing'']) ''xSmall'') = Inr ''0.5rem''"
    by (simp add: example_eval)
  have n: "to_string example_heap (token example_heap (JRef 6) [''key'']) = Inr ''canvas''"
    by (simp add: example_eval)
  have r: "returned example_heap (JRef 6) =
     Some [(''fontSize'', JStr ''1rem''),
           (''fontFamily'', JStr ''LatoWeb, Lato, sans-serif''),
           (''fontWeight'', JNum 400),
           (''color'', JStr ''#273540''),
           (''background'', JStr ''#FFFFFF''),
           (''borderColor'', JStr ''#E8EAEC''),
           (''hoverBorderColor'', JUndefined),
           (''padding'', JStr ''0.5rem 0'')]"
    unfolding returned_eq [OF t componentVariables_Inr [OF x] n]
    by (simp add: override_of_def spread_single) (simp add: example_eval)
  from canvas_without_brand [OF t k b r] t k b d show ?thesis
    by (simp add: r own_def has_own_def)
qed

subsection \<open>What a call changes\<close>

lemma heap_ok_append:
  assumes "heap_ok h" and "\<forall>ob \<in> set hs. \<forall>kv \<in> set ob. val_ok h (snd kv) \<or> snd kv = JRef (length h)"
    and "hs \<noteq> []"
  shows "heap_ok (h @ hs)"
  unfolding heap_ok_def list_all_iff
proof (intro ballI)
  fix ob kv assume ob: "ob \<in> set (h @ hs)" and kv: "kv \<in> set ob"
  have fresh: "val_ok (h @ hs) (JRef (length h))"
    using assms(3) by (simp add: val_ok_def)
  from ob kv assms(1,2) have "val_ok h (snd kv) \<or> snd kv = JRef (length h)"
    unfolding heap_ok_def list_all_iff by auto
  with fresh show "val_ok (h @ hs) (snd kv)"
    by (auto intro: val_ok_append)
qed

lemma spread_override_values:
  assumes "\<forall>kv \<in> set vars. val_ok h (snd kv)" and "val_ok h b"
    and "kv \<in> set (spread vars (override_of n b))"
  shows "val_ok h (snd kv)"
  using assms set_put [of "''hoverBorderColor''" b vars]
  by (auto simp: override_of_def spread_Nil spread_single split: if_splits)

lemma generateComponentTheme_frame:
  assumes t: "theme_object h theme"
  shows "\<exists>hs. snd (generateComponentTheme h theme) = h @ hs \<and> heap_ok (h @ hs)"
proof -
  note ok = theme_objectD(1) [OF t] and th = theme_objectD(2) [OF t]
  let ?b = "token h theme [''ic-brand-primary'']"
  let ?canvas = "[(''hoverBorderColor'', ?b)]"
  let ?tss = "[(''canvas'', JRef (length h))]"
  let ?cv = "componentVariables h (token h theme [''colors''])
               (token h theme [''typography'']) (token h theme [''spacing''])"
  have b: "val_ok h ?b" using ok th by (rule val_ok_token)
  have two: "heap_ok (h @ [?canvas, ?tss])"
    using ok by (rule heap_ok_append) (simp_all add: b)
  show ?thesis
  proof (cases ?cv)
    case (Inl e)
    with two show ?thesis by (simp add: generateComponentTheme_run [OF t])
  next
    case (Inr vars)
    have vars: "\<forall>kv \<in> set vars. val_ok h (snd kv)"
      using componentVariables_values [OF ok Inr] by blast
    have three: "heap_ok (h @ [?canvas, ?tss, vars])"
      using ok by (rule heap_ok_append) (simp_all add: b vars)
    show ?thesis
    proof (cases "to_string h (token h theme [''key''])")
      case (Inl e)
      with Inr three show ?thesis by (simp add: generateComponentTheme_run [OF t])
    next
      case r: (Inr n)
      have res: "\<forall>kv \<in> set (spread vars (override_of n ?b)). val_ok h (snd kv)"
        using spread_override_values [OF vars b] by blast
      have "heap_ok (h @ [?canvas, ?tss, vars, spread vars (override_of n ?b)])"
        using ok by (rule heap_ok_append) (simp_all add: b vars res)
      with Inr r show ?thesis by (simp add: generateComponentTheme_run [OF t])
    qed
  qed
qed

lemma variables_tokens:
  "componentVariables h (token h theme [''colors''])
     (token h theme [''typography'']) (token h theme [''spacing'']) =
   (case to_string h (token h theme [''spacing'', ''xSmall'']) of
      Inl e \<Rightarrow> Inl e
    | Inr x \<Rightarrow>
        Inr [(''fontSize'', token h theme [''typography'', ''fontSizeMedium'']),
             (''fontFamily'', token h theme [''typography'', ''fontFamily'']),
             (''fontWeight'', token h theme [''typography'', ''fontWeightNormal'']),
             (''color'', token h theme [''colors'', ''contrasts'', ''grey125125'']),
             (''background'', token h theme [''colors'', ''contrasts'', ''white1010'']),
             (''borderColor'', token h theme [''colors'', ''contrasts'', ''grey1214'']),
             (''hoverBorderColor'', token h theme [''colors'', ''contrasts'', ''blue4570'']),
             (''padding'', JStr (x @ '' 0''))])"
  by (simp add: componentVariables_def token_def split: sum.splits)

lemma same_tokens_variables:
  assumes "same_tokens h theme theme'"
  shows "componentVariables h (token h theme [''colors''])
           (token h theme [''typography'']) (token h theme [''spacing'']) =
         componentVariables h (token h theme' [''colors''])
           (token h theme' [''typography'']) (token h theme' [''spacing''])"
  using assms unfolding variables_tokens
  by (simp add: same_tokens_def theme_paths_def split: sum.splits)

lemma same_tokens_key:
  assumes "same_tokens h theme theme'"
  shows "token h theme [''key''] = token h theme' [''key'']"
    and "token h theme [''ic-brand-primary''] = token h theme' [''ic-brand-primary'']"
    and "token h theme [''spacing'', ''xSmall''] = token h theme' [''spacing'', ''xSmall'']"
  using assms by (simp_all add: same_tokens_def theme_paths_def)

lemma variables_append:
  assumes "theme_object h theme"
  shows "componentVariables (h @ hs) (token (h @ hs) theme [''colors''])
           (token (h @ hs) theme [''typography'']) (token (h @ hs) theme [''spacing'']) =
         componentVariables h (token h theme [''colors''])
           (token h theme [''typography'']) (token h theme [''spacing''])"
proof -
  note ok = theme_objectD(1) [OF assms] and th = theme_objectD(2) [OF assms]
  show ?thesis
    unfolding token_append [OF ok th]
    using ok by (rule componentVariables_append) (rule val_ok_token [OF ok th])+
qed

lemma to_string_token_append:
  assumes "theme_object h theme"
  shows "to_string (h @ hs) (token (h @ hs) theme path) = to_string h (token h theme path)"
proof -
  note ok = theme_objectD(1) [OF assms] and th = theme_objectD(2) [OF assms]
  show ?thesis
    unfolding token_append [OF ok th]
    by (rule to_string_append) (rule val_ok_token [OF ok th])
qed

lemma theme_converts_append:
  assumes "theme_object h theme"
  shows "theme_converts (h @ hs) theme = theme_converts h theme"
  by (simp add: theme_converts_def converts_def to_string_token_append [OF assms])

text \<open>
  Claim C7. A call changes no object of the store it starts from, the theme it is given
  included: it only allocates, also when it throws. Two calls, one after the other, on
  theme objects with the same tokens (the same object, or another built apart) have
  the same outcome. Either both return component themes with equal properties, at two
  fresh addresses, and the second call does not change what the first returned; or,
  when the key or \<open>spacing.xSmall\<close> does not convert to a string, both throw a
  \<^verbatim>\<open>TypeError\<close>.
\<close>

theorem generateComponentTheme_deterministic:
  assumes ok: "heap_ok h" and a1: "a1 < length h" and a2: "a2 < length h"
    and same: "same_tokens h (JRef a1) (JRef a2)"
    and first: "generateComponentTheme h (JRef a1) = (r1, h1)"
    and second: "generateComponentTheme h1 (JRef a2) = (r2, h2)"
  shows "cell h1 a1 = cell h a1 \<and> cell h2 a2 = cell h a2 \<and>
         take (length h) h1 = h \<and> take (length h1) h2 = h1 \<and>
         (theme_converts h (JRef a1) \<longrightarrow>
            r1 = Inr (JRef (length h + 3)) \<and> r2 = Inr (JRef (length h + 7)) \<and>
            cell h2 (length h + 3) = cell h2 (length h + 7) \<and>
            returned h (JRef a1) = Some (cell h2 (length h + 3))) \<and>
         (\<not> theme_converts h (JRef a1) \<longrightarrow> r1 = Inl TypeError \<and> r2 = Inl TypeError)"
proof -
  have t1: "theme_object h (JRef a1)" and t2: "theme_object h (JRef a2)"
    using ok a1 a2 by (simp_all add: theme_object_def)
  from generateComponentTheme_frame [OF t1] first obtain hs1
    where h1: "h1 = h @ hs1" and ok1: "heap_ok h1" by auto
  have t2': "theme_object h1 (JRef a2)"
    using ok1 a2 by (simp add: theme_object_def h1)
  from generateComponentTheme_frame [OF t2'] second obtain hs2
    where h2: "h2 = h1 @ hs2" by auto
  have f1: "cell h1 a1 = cell h a1" unfolding h1 using a1 by (rule cell_append)
  have f2: "cell h2 a2 = cell h a2" using a2 by (simp add: h2 h1 cell_def nth_append)
  have f3: "take (length h) h1 = h" by (simp add: h1)
  have f4: "take (length h1) h2 = h1" by (simp add: h2)
  have conv2: "theme_converts h1 (JRef a2) = theme_converts h (JRef a1)"
    unfolding h1 theme_converts_append [OF t2]
    by (simp add: theme_converts_def same_tokens_key [OF same])
  have yes: "r1 = Inr (JRef (length h + 3)) \<and> r2 = Inr (JRef (length h + 7)) \<and>
            cell h2 (length h + 3) = cell h2 (length h + 7) \<and>
            returned h (JRef a1) = Some (cell h2 (length h + 3))"
    if c: "theme_converts h (JRef a1)"
  proof -
    from c obtain n x where n: "to_string h (token h (JRef a1) [''key'']) = Inr n"
      and x: "to_string h (token h (JRef a1) [''spacing'', ''xSmall'']) = Inr x"
      by (auto simp: theme_converts_def converts_iff)
    from x obtain vars where v: "componentVariables h (token h (JRef a1) [''colors''])
       (token h (JRef a1) [''typography'']) (token h (JRef a1) [''spacing'']) = Inr vars"
      by (rule theme_converts_variables)
    let ?res = "spread vars (override_of n (token h (JRef a1) [''ic-brand-primary'']))"
    note run1 = generateComponentTheme_returns [OF t1 v n]
    from run1 first have r1: "r1 = Inr (JRef (length h + 3))"
      and h1': "h1 = h @ [[(''hoverBorderColor'', token h (JRef a1) [''ic-brand-primary''])],
          [(''canvas'', JRef (length h))], vars, ?res]"
      by simp_all
    have len1: "length h1 = length h + 4" by (simp add: h1')
    have v2: "componentVariables h1 (token h1 (JRef a2) [''colors''])
       (token h1 (JRef a2) [''typography'']) (token h1 (JRef a2) [''spacing'']) = Inr vars"
      unfolding h1 variables_append [OF t2]
      using v same_tokens_variables [OF same] by simp
    have n2: "to_string h1 (token h1 (JRef a2) [''key'']) = Inr n"
      unfolding h1 to_string_token_append [OF t2]
      using n same_tokens_key(1) [OF same] by simp
    have b2: "token h1 (JRef a2) [''ic-brand-primary''] = token h (JRef a1) [''ic-brand-primary'']"
      unfolding h1 using same_tokens_key(2) [OF same] theme_objectD(2) [OF t2]
      by (simp add: token_append [OF ok])
    note run2 = generateComponentTheme_returns [OF t2' v2 n2]
    from run2 second have r2: "r2 = Inr (JRef (length h + 7))"
      and h2': "h2 = h1 @ [[(''hoverBorderColor'', token h (JRef a1) [''ic-brand-primary''])],
          [(''canvas'', JRef (length h1))], vars, ?res]"
      by (simp_all add: len1 b2)
    have c1: "cell h2 (length h + 3) = ?res"
      by (simp add: h2' h1' cell_def nth_append)
    have c2: "cell h2 (length h + 7) = ?res"
      by (simp add: h2' h1' cell_def nth_append)
    have ret: "returned h (JRef a1) = Some ?res"
      by (rule returned_eq [OF t1 v n])
    from r1 r2 c1 c2 ret show ?thesis by simp
  qed
  have no: "r1 = Inl TypeError \<and> r2 = Inl TypeError" if c: "\<not> theme_converts h (JRef a1)"
  proof -
    from generateComponentTheme_fails [OF t1 c] first have "r1 = Inl TypeError" by simp
    moreover from c conv2 have "\<not> theme_converts h1 (JRef a2)" by simp
    from generateComponentTheme_fails [OF t2' this] second have "r2 = Inl TypeError" by simp
    ultimately show ?thesis by simp
  qed
  from f1 f2 f3 f4 yes no show ?thesis by blast
qed

text \<open>
  The theorem at the example store: the canvas theme at address 0 and the copy built
  apart at address 8, for which both calls return; and the theme at address 14, for
  which both throw.
\<close>

theorem generateComponentTheme_deterministic_witness:
  "heap_ok example_heap \<and> same_tokens example_heap (JRef 0) (JRef 8) \<and>
   cell example_heap 0 \<noteq> cell example_heap 8 \<and>
   theme_converts example_heap (JRef 0) \<and>
   (let (r1, h1) = generateComponentTheme example_heap (JRef 0);
        (r2, h2) = generateComponentTheme h1 (JRef 8)
    in cell h1 0 = cell example_heap 0 \<and> cell h2 8 = cell example_heap 8 \<and>
       take 17 h1 = example_heap \<and> take (length h1) h2 = h1 \<and>
       r1 = Inr (JRef 20) \<and> r2 = Inr (JRef 24) \<and> cell h2 20 = cell h2 24 \<and>
       returned example_heap (JRef 0) = Some (cell h2 20)) \<and>
   \<not> theme_converts example_heap (JRef 14) \<and>
   (let (r1, h1) = generateComponentTheme example_heap (JRef 14);
        (r2, h2) = generateComponentTheme h1 (JRef 14)
    in take 17 h1 = example_heap \<and> r1 = Inl TypeError \<and> r2 = Inl TypeError)"
proof -
  let ?p1 = "generateComponentTheme example_heap (JRef 0)"
  let ?p2 = "generateComponentTheme (snd ?p1) (JRef 8)"
  let ?q1 = "generateComponentTheme example_heap (JRef 14)"
  let ?q2 = "generateComponentTheme (snd ?q1) (JRef 14)"
  have len: "length example_heap = 17" by (simp add: example_heap_def)
  have a: "(0::nat) < length example_heap" "(8::nat) < length example_heap"
    "(14::nat) < length example_heap"
    by (simp_all add: len)
  have same: "same_tokens example_heap (JRef 0) (JRef 8)"
    by (simp add: same_tokens_def theme_paths_def) (simp add: example_eval)
  have same': "same_tokens example_heap (JRef 14) (JRef 14)"
    by (simp add: same_tokens_def list_all_iff)
  have diff: "cell example_heap 0 \<noteq> cell example_heap 8"
    by (simp add: cell_def example_heap_def)
  have c: "theme_converts example_heap (JRef 0)" and c': "\<not> theme_converts example_heap (JRef 14)"
    by (simp_all add: example_eval)
  have first: "?p1 = (fst ?p1, snd ?p1)" and second: "?p2 = (fst ?p2, snd ?p2)"
    and first': "?q1 = (fst ?q1, snd ?q1)" and second': "?q2 = (fst ?q2, snd ?q2)"
    by simp_all
  note d = generateComponentTheme_deterministic
    [OF heap_ok_example a(1) a(2) same first second]
  note e = generateComponentTheme_deterministic
    [OF heap_ok_example a(3) a(3) same' first' second']
  have d0: "cell (snd ?p1) 0 = cell example_heap 0" using d by (simp only:)
  have d0': "cell (snd ?p2) 8 = cell example_heap 8" using d by (simp only:)
  have d1: "take 17 (snd ?p1) = example_heap" using d by (simp only: len)
  have d2: "take (length (snd ?p1)) (snd ?p2) = snd ?p1" using d by (simp only:)
  have d3: "fst ?p1 = Inr (JRef 20)" using d c unfolding len by simp
  have d4: "fst ?p2 = Inr (JRef 24)" using d c unfolding len by simp
  have d5: "cell (snd ?p2) 20 = cell (snd ?p2) 24" using d c unfolding len by simp
  have d6: "returned example_heap (JRef 0) = Some (cell (snd ?p2) 20)"
    using d c unfolding len by simp
  have e1: "take 17 (snd ?q1) = example_heap" using e by (simp only: len)
  have e2: "fst ?q1 = Inl TypeError" using e c' by simp
  have e3: "fst ?q2 = Inl TypeError" using e c' by simp
  show ?thesis
    unfolding Let_def case_prod_beta
    using heap_ok_example same diff c c' d0 d0' d1 d2 d3 d4 d5 d6 e1 e2 e3 by (intro conjI)
qed

subsection \<open>Props and panel\<close>

text \<open>
  Claim C5, as amended. The validators of \<open>size\<close> and \<open>inputMode\<close> carry exactly the
  literals the interface declares, and both props are optional in the interface and
  in \<^verbatim>\<open>propTypes\<close>. So the \<open>size\<close> validator accepts a supplied value if and only if it
  is \<^verbatim>\<open>medium\<close> or \<^verbatim>\<open>large\<close>, the \<open>inputMode\<close> validator if and only if it is \<^verbatim>\<open>numeric\<close>,
  \<^verbatim>\<open>decimal\<close> or \<^verbatim>\<open>tel\<close>, and either accepts a missing value.
\<close>

theorem enum_validators:
  "check_prop ''size'' v = Some (nullish v \<or> v = JStr ''medium'' \<or> v = JStr ''large'') \<and>
   check_prop ''inputMode'' v =
     Some (nullish v \<or> v = JStr ''numeric'' \<or> v = JStr ''decimal'' \<or> v = JStr ''tel'') \<and>
   map_of propTypes ''size'' = Some (PT_oneOf [''medium'', ''large'']) \<and>
   map_of NumberInputOwnProps ''size'' = Some (Optional, TS_literals [''medium'', ''large'']) \<and>
   map_of propTypes ''inputMode'' = Some (PT_oneOf [''numeric'', ''decimal'', ''tel'']) \<and>
   map_of NumberInputOwnProps ''inputMode'' =
     Some (Optional, TS_literals [''numeric'', ''decimal'', ''tel''])"
proof -
  have s: "map_of propTypes ''size'' = Some (PT_oneOf [''medium'', ''large''])"
    and m: "map_of propTypes ''inputMode'' = Some (PT_oneOf [''numeric'', ''decimal'', ''tel''])"
    by (simp_all add: propTypes_def)
  have s': "map_of NumberInputOwnProps ''size'' = Some (Optional, TS_literals [''medium'', ''large''])"
    and m': "map_of NumberInputOwnProps ''inputMode'' =
      Some (Optional, TS_literals [''numeric'', ''decimal'', ''tel''])"
    by (simp_all add: NumberInputOwnProps_def)
  have 1: "check_prop ''size'' v = Some (nullish v \<or> v = JStr ''medium'' \<or> v = JStr ''large'')"
    by (cases v) (auto simp: check_prop_def s nullish_def)
  have 2: "check_prop ''inputMode'' v =
     Some (nullish v \<or> v = JStr ''numeric'' \<or> v = JStr ''decimal'' \<or> v = JStr ''tel'')"
    by (cases v) (auto simp: check_prop_def m nullish_def)
  from 1 2 s m s' m' show ?thesis by (intro conjI)
qed

text \<open>The theorem at a literal of each enum, at another string and at a number.\<close>

theorem enum_validators_witness:
  "check_prop ''size'' (JStr ''large'') = Some True \<and>
   check_prop ''inputMode'' (JStr ''large'') = Some False \<and>
   check_prop ''inputMode'' (JStr ''tel'') = Some True \<and>
   check_prop ''size'' (JNum 3) = Some False"
  using enum_validators [of "JStr ''large''"] enum_validators [of "JStr ''tel''"]
    enum_validators [of "JNum 3"]
  by (simp add: nullish_def)

text \<open>
  Claim C5 as stated fails: the \<open>size\<close> validator accepts \<^verbatim>\<open>undefined\<close>, which is neither
  literal.
\<close>

theorem size_accepts_undefined:
  "check_prop ''size'' JUndefined = Some True \<and>
   JUndefined \<noteq> JStr ''medium'' \<and> JUndefined \<noteq> JStr ''large''"
  by (simp add: check_prop_def propTypes_def nullish_def)

text \<open>
  Claim C6. Every key of \<^verbatim>\<open>allowedProps\<close> has an entry in \<^verbatim>\<open>propTypes\<close>: the keys of
  \<^verbatim>\<open>propTypes\<close> are those of \<^verbatim>\<open>allowedProps\<close>, in the same order and each once, and they
  are the keys the type \<^verbatim>\<open>NumberInputOwnProps\<close> declares.
\<close>

theorem every_prop_has_validator:
  "list_all (\<lambda>k. map_of propTypes k \<noteq> None) allowedProps \<and>
   set allowedProps = set (map fst propTypes) \<and>
   map fst propTypes = allowedProps \<and>
   map fst NumberInputOwnProps = allowedProps \<and>
   distinct allowedProps"
proof -
  have 1: "map fst propTypes = allowedProps"
    by (simp add: propTypes_def allowedProps_def)
  have 2: "map fst NumberInputOwnProps = allowedProps"
    by (simp add: NumberInputOwnProps_def allowedProps_def)
  have 3: "distinct allowedProps"
    by (simp add: allowedProps_def)
  have 4: "list_all (\<lambda>k. map_of propTypes k \<noteq> None) allowedProps"
    unfolding list_all_iff
  proof
    fix k assume "k \<in> set allowedProps"
    then have "k \<in> fst ` set propTypes" using 1 by (metis set_map)
    then show "map_of propTypes k \<noteq> None" by (simp add: map_of_eq_None_iff)
  qed
  from 1 2 3 4 show ?thesis by simp
qed

text \<open>The theorem at the key \<open>size\<close>.\<close>

theorem every_prop_has_validator_witness:
  "''size'' \<in> set allowedProps \<and> map_of propTypes ''size'' \<noteq> None"
proof -
  have "''size'' \<in> set allowedProps" by (simp add: allowedProps_def)
  moreover from every_prop_has_validator
  have "list_all (\<lambda>k. map_of propTypes k \<noteq> None) allowedProps" by (rule conjunct1)
  ultimately show ?thesis by (simp add: list_all_iff)
qed

text \<open>
  Claim C8. For every panel rendered selected, the element the test finds by the role
  \<^verbatim>\<open>tabpanel\<close> is the panel's container: its role attribute is \<^verbatim>\<open>tabpanel\<close> and its text
  content is the text of the children supplied.
\<close>

theorem selected_panel_renders_children:
  assumes "isSelected p"
  shows "find_role ''tabpanel'' (mount (Panel p)) = Some (Panel p) \<and>
         get_attribute (Panel p) ''role'' = Some ''tabpanel'' \<and>
         text_content (Panel p) = concat (map text_content (children p))"
  using assms by (simp add: Panel_def mount_def)

text \<open>The theorem at the panel of the test.\<close>

theorem selected_panel_renders_children_witness:
  "isSelected \<lparr>isSelected = True, renderTitle = ''Panel Title'',
      children = [Text ''Panel contents'']\<rparr> \<and>
   map_option text_content
     (find_role ''tabpanel''
        (mount (Panel \<lparr>isSelected = True, renderTitle = ''Panel Title'',
           children = [Text ''Panel contents'']\<rparr>))) = Some ''Panel contents'' \<and>
   get_attribute
     (Panel \<lparr>isSelected = True, renderTitle = ''Panel Title'',
        children = [Text ''Panel contents'']\<rparr>) ''role'' = Some ''tabpanel''"
  using selected_panel_renders_children
    [of "\<lparr>isSelected = True, renderTitle = ''Panel Title'',
          children = [Text ''Panel contents'']\<rparr>"]
  by simp

end
